theory Spec2Isabelle
  imports Main "HOL-Library.Sublist"
begin

section \<open>Static configuration of setup-hooks.py\<close>

text \<open>
  The module-level tables of the script: the event types that are required, the resource
  version of each event type (an association list, read with \<open>map_of\<close> as the
  dictionary's \<open>get\<close>) and the default version.
\<close>

definition EVENT_TYPES :: "string list" where
  "EVENT_TYPES =
    [''git.pullrequest.created'',
     ''git.pullrequest.updated'',
     ''git.push'',
     ''ms.vss-pipelines.run-state-changed-event'',
     ''ms.vss-pipelines.stage-state-changed-event'',
     ''ms.vss-pipelines.job-state-changed-event'',
     ''ms.vss-pipelinechecks-events.approval-pending'',
     ''ms.vss-pipelinechecks-events.approval-completed'',
     ''build.complete'']"

definition VERSION_1_0 :: string where
  "VERSION_1_0 = ''1.0''"

definition DEFAULT_RESOURCE_VERSION :: string where
  "DEFAULT_RESOURCE_VERSION = ''latest''"

definition EVENT_TYPE_VERSIONS :: "(string \<times> string) list" where
  "EVENT_TYPE_VERSIONS =
    [(''git.pullrequest.created'', VERSION_1_0),
     (''git.pullrequest.updated'', VERSION_1_0),
     (''git.push'', VERSION_1_0)]"

section \<open>Data\<close>

text \<open>
  A project and a service hook are JSON objects of the remote API; the records keep the
  fields the script reads: \<open>project["id"]\<close>, \<open>project["name"]\<close>, \<open>hook["id"]\<close>,
  \<open>hook["publisherInputs"]["projectId"]\<close> and \<open>hook["eventType"]\<close>.
\<close>

record project =
  project_id :: string
  project_name :: string

record hook =
  hook_id :: string
  hook_projectId :: string
  hook_eventType :: string

text \<open>One page of the project listing: \<open>data["value"]\<close> and \<open>data.get("continuation_token")\<close>.\<close>

record page =
  page_value :: "project list"
  page_continuation_token :: "string option"

text \<open>The object \<open>Client.__init__\<close> builds. An argument that was not given is \<open>None\<close>.\<close>

record client =
  az_devops_token :: string
  az_devops_org :: "string option"
  dd_site :: "string option"
  dd_api_key :: "string option"
  verbose :: bool
  project :: "string option"

text \<open>The JSON body of the request that creates a subscription.\<close>

record payload =
  publisherId :: string
  eventType :: string
  resourceVersion :: string
  consumerId :: string
  consumerActionId :: string
  publisherInputs_projectId :: string
  consumerInputs_url :: string
  consumerInputs_httpHeaders :: string

section \<open>The remote side and what a run does to it\<close>

text \<open>
  \<open>urlopen\<close> either returns a response with a status and a body, or raises \<open>HTTPError\<close>
  with a code. The body is kept as the value the script reads out of the decoded JSON, so
  a body is always well formed. A failure below HTTP (no connection, no name resolution)
  is not an outcome of this model.
\<close>

datatype 'a http_outcome = Response nat 'a | HTTPError nat

fun status_code :: "'a http_outcome \<Rightarrow> nat" where
  "status_code (Response s b) = s"
| "status_code (HTTPError c) = c"

text \<open>
  The remote services answer each request of a run as a function of the request: the key
  validation of the monitoring vendor, the project listing (by continuation token), the
  subscription query, the creation of a subscription (by its body) and the deletion of one
  (by its identifier).
\<close>

record remote =
  validate_response :: "unit http_outcome"
  projects_response :: "string option \<Rightarrow> page http_outcome"
  subscriptionsquery_response :: "hook list http_outcome"
  create_response :: "payload \<Rightarrow> unit http_outcome"
  delete_response :: "string \<Rightarrow> unit http_outcome"

datatype request =
    DD_Validate
  | AZ_ListProjects "string option"
  | AZ_QuerySubscriptions string
  | AZ_CreateSubscription payload
  | AZ_DeleteSubscription string

datatype message =
    TokenNotSet
  | ApiKeyNotSet
  | NoProjectsFound
  | ProjectNotFound string
  | AllAlreadyConfigured nat
  | ProjectAlreadyConfigured string
  | Exiting
  | ConfiguredAll nat nat
  | ConfiguredProject nat string
  | SingleProjectUnsupported
  | NoHooksFound
  | FoundHooks nat nat
  | UninstalledAll nat nat

datatype prompt = ConfirmInstall nat nat | ConfirmUninstall nat

text \<open>
  The trace of a run: the HTTP requests it sends, the prompts it reads an answer to and
  the messages it prints, in order. The progress bar and the lines of \<open>verbose_print\<close>
  are console decoration and are not recorded.
\<close>

datatype event = Http request | Input prompt | Print message

text \<open>
  The exceptions of the script: its own \<open>AzureDevOpsException\<close> (message, and the status
  of the response it wraps), the plain \<open>Exception\<close> of the key validation, the
  \<open>TypeError\<close> of concatenating a string with \<open>None\<close>, and the \<open>RecursionError\<close> of
  the interpreter when calls are nested deeper than its recursion limit allows.
\<close>

datatype exn = AzureDevOpsException string nat | Exception string | TypeError | RecursionError

text \<open>How a workflow ends: it returns, it calls \<open>exit\<close>, or an exception leaves it.\<close>

datatype outcome = Returned | Exited nat | Raised exn

section \<open>Helpers of the client\<close>

text \<open>An f-string prints an absent argument as \<open>None\<close>.\<close>

fun fstr :: "string option \<Rightarrow> string" where
  "fstr None = ''None''"
| "fstr (Some s) = s"

definition webhook_url :: "client \<Rightarrow> string" where
  "webhook_url c = ''https://webhook-intake.'' @ fstr (dd_site c) @ ''/api/v2/webhook''"

text \<open>\<open>str.startswith\<close>: the first \<open>len(p)\<close> characters of \<open>s\<close> are \<open>p\<close>.\<close>

definition startswith :: "string \<Rightarrow> string \<Rightarrow> bool" where
  "startswith s p = (take (length p) s = p)"

definition get_publisher_id :: "string \<Rightarrow> string" where
  "get_publisher_id event_type =
    (if startswith event_type ''ms.vss-pipelines.''
        \<or> startswith event_type ''ms.vss-pipelinechecks-events.''
     then ''pipelines'' else ''tfs'')"

text \<open>\<open>EVENT_TYPE_VERSIONS.get(event_type, DEFAULT_RESOURCE_VERSION)\<close>\<close>

definition resource_version :: "string \<Rightarrow> string" where
  "resource_version event_type =
    (case map_of EVENT_TYPE_VERSIONS event_type of
       Some v \<Rightarrow> v
     | None \<Rightarrow> DEFAULT_RESOURCE_VERSION)"

text \<open>The truth value of \<open>if continuation_token:\<close>: absent and empty are both false.\<close>

fun truthy :: "string option \<Rightarrow> bool" where
  "truthy None = False"
| "truthy (Some s) = (s \<noteq> [])"

text \<open>
  \<open>str.lower\<close> on the characters of an answer: the letters A to Z are mapped to a to z and
  every other character of the 8-bit alphabet is kept.
\<close>

definition lower_char :: "char \<Rightarrow> char" where
  "lower_char ch =
    (case map_of (zip ''ABCDEFGHIJKLMNOPQRSTUVWXYZ'' ''abcdefghijklmnopqrstuvwxyz'') ch of
       Some l \<Rightarrow> l
     | None \<Rightarrow> ch)"

definition lower :: "string \<Rightarrow> string" where
  "lower s = map lower_char s"

definition confirmed :: "string \<Rightarrow> bool" where
  "confirmed yesno = (lower yesno \<in> set [''yes'', ''y''])"

section \<open>The gateway operations\<close>

text \<open>
  Each operation returns the requests it sent and either its result or the exception it
  raised. A response whose status is not the expected one raises inside the \<open>with\<close>
  block; that exception is not an \<open>HTTPError\<close>, so the handler lets it through.
  \<open>main\<close> installs with an API key set only; the key is the value of the header of the
  validation request and a part of the body of a creation request.
\<close>

definition validate_dd_api_key :: "client \<Rightarrow> remote \<Rightarrow> event list \<times> (exn + unit)" where
  "validate_dd_api_key c r =
    ([Http DD_Validate],
     case validate_response r of
       Response s b \<Rightarrow>
         if s \<noteq> 200 then Inl (Exception ''Invalid Datadog API key!'') else Inr ()
     | HTTPError code \<Rightarrow> Inl (Exception ''Error validating Datadog API key!''))"

text \<open>
  \<open>list_projects\<close> calls itself once for each further page, each call inside the frame of
  the one before. \<open>depth\<close> is the number of nested calls of \<open>list_projects\<close> the recursion
  limit of the interpreter leaves room for (the limit is 1000 frames unless it is changed,
  and the script does not change it; the callers and \<open>urlopen\<close> take their share). The
  call that no longer fits raises \<open>RecursionError\<close>, here before its request is sent;
  no handler of the script catches it.
\<close>

fun list_projects ::
  "remote \<Rightarrow> nat \<Rightarrow> string option \<Rightarrow> event list \<times> (exn + project list)" where
  "list_projects r 0 continuation_token = ([], Inl RecursionError)"
| "list_projects r (Suc depth) continuation_token =
    (let sent = Http (AZ_ListProjects
                  (if truthy continuation_token then continuation_token else None)) in
     case projects_response r (if truthy continuation_token then continuation_token else None) of
       HTTPError code \<Rightarrow>
         ([sent], Inl (AzureDevOpsException ''Error listing Azure DevOps projects'' code))
     | Response s data \<Rightarrow>
         if s \<noteq> 200
         then ([sent], Inl (AzureDevOpsException ''Error listing Azure DevOps projects'' s))
         else if truthy (page_continuation_token data)
         then (case list_projects r depth (page_continuation_token data) of
                 (tr, Inl e) \<Rightarrow> (sent # tr, Inl e)
               | (tr, Inr rest) \<Rightarrow> (sent # tr, Inr (page_value data @ rest)))
         else ([sent], Inr (page_value data)))"

definition get_existing_hooks :: "client \<Rightarrow> remote \<Rightarrow> event list \<times> (exn + hook list)" where
  "get_existing_hooks c r =
    ([Http (AZ_QuerySubscriptions (webhook_url c))],
     case subscriptionsquery_response r of
       Response s results \<Rightarrow>
         if s \<noteq> 200 then Inl (AzureDevOpsException ''Error listing service hooks'' s)
         else Inr results
     | HTTPError code \<Rightarrow> Inl (AzureDevOpsException ''Error listing service hooks'' code))"

text \<open>The body of the creation request, for a key that is set.\<close>

definition subscription_payload :: "client \<Rightarrow> string \<Rightarrow> project \<Rightarrow> string \<Rightarrow> payload" where
  "subscription_payload c key p event_type =
    \<lparr> publisherId = get_publisher_id event_type,
      eventType = event_type,
      resourceVersion = resource_version event_type,
      consumerId = ''webHooks'',
      consumerActionId = ''httpRequest'',
      publisherInputs_projectId = project_id p,
      consumerInputs_url = webhook_url c,
      consumerInputs_httpHeaders = ''dd-api-key: '' @ key \<rparr>"

definition configure_service_hook ::
  "client \<Rightarrow> remote \<Rightarrow> project \<Rightarrow> string \<Rightarrow> event list \<times> (exn + unit)" where
  "configure_service_hook c r p event_type =
    (case dd_api_key c of
       None \<Rightarrow> ([], Inl TypeError)
     | Some key \<Rightarrow>
         ([Http (AZ_CreateSubscription (subscription_payload c key p event_type))],
          case create_response r (subscription_payload c key p event_type) of
            Response s b \<Rightarrow>
              if s \<noteq> 200
              then Inl (AzureDevOpsException
                          (''Error configuring service hook for project '' @ project_name p) s)
              else Inr ()
          | HTTPError code \<Rightarrow>
              Inl (AzureDevOpsException
                     (''Error configuring service hook for project '' @ project_name p) code)))"

definition delete_service_hook :: "client \<Rightarrow> remote \<Rightarrow> hook \<Rightarrow> event list \<times> (exn + unit)" where
  "delete_service_hook c r h =
    ([Http (AZ_DeleteSubscription (hook_id h))],
     case delete_response r (hook_id h) of
       Response s b \<Rightarrow>
         if s \<noteq> 204
         then Inl (AzureDevOpsException (''Error deleting service hook '' @ hook_id h) s)
         else Inr ()
     | HTTPError code \<Rightarrow>
         if code \<noteq> 204
         then Inl (AzureDevOpsException (''Error deleting service hook '' @ hook_id h) code)
         else Inr ())"

section \<open>Reconciliation\<close>

text \<open>
  The dictionary comprehension of \<open>install_hooks\<close>: the existing hooks keyed by project
  identifier and event type; a later hook with the same key replaces an earlier one.
\<close>

definition hook_key :: "hook \<Rightarrow> string \<times> string" where
  "hook_key h = (hook_projectId h, hook_eventType h)"

definition existing_hooks_by_project_type :: "hook list \<Rightarrow> (string \<times> string \<rightharpoonup> hook)" where
  "existing_hooks_by_project_type hooks = fold (\<lambda>h m. m(hook_key h \<mapsto> h)) hooks Map.empty"

text \<open>
  The two nested loops of \<open>install_hooks\<close>. The inner one runs over \<open>EVENT_TYPES\<close> for
  one project, appends the missing pairs to \<open>toProcess\<close> and sets \<open>missingAtLeastOne\<close>;
  the outer one runs over the projects and counts those that miss at least one hook.
\<close>

definition scan_event_types ::
  "(string \<times> string \<rightharpoonup> hook) \<Rightarrow> project \<Rightarrow> (project \<times> string) list
    \<Rightarrow> (project \<times> string) list \<times> bool" where
  "scan_event_types existing p toProcess =
    fold (\<lambda>event_type (acc, missingAtLeastOne).
            if existing (project_id p, event_type) = None
            then (acc @ [(p, event_type)], True)
            else (acc, missingAtLeastOne))
         EVENT_TYPES (toProcess, False)"

definition scan_projects ::
  "(string \<times> string \<rightharpoonup> hook) \<Rightarrow> project list \<Rightarrow> (project \<times> string) list \<times> nat" where
  "scan_projects existing projects =
    fold (\<lambda>p (toProcess, numProjectsMissingAtLeastOne).
            case scan_event_types existing p toProcess of
              (acc, missingAtLeastOne) \<Rightarrow>
                (acc, if missingAtLeastOne then numProjectsMissingAtLeastOne + 1
                      else numProjectsMissingAtLeastOne))
         projects ([], 0)"

text \<open>The event types for which a project has no hook in the dictionary, in declared order.\<close>

definition missing_types :: "(string \<times> string \<rightharpoonup> hook) \<Rightarrow> project \<Rightarrow> string list" where
  "missing_types existing p = filter (\<lambda>e. existing (project_id p, e) = None) EVENT_TYPES"

section \<open>The workflows\<close>

text \<open>The loop over \<open>toProcess\<close>: the first exception ends it.\<close>

fun configure_all ::
  "client \<Rightarrow> remote \<Rightarrow> (project \<times> string) list \<Rightarrow> event list \<times> (exn + unit)" where
  "configure_all c r [] = ([], Inr ())"
| "configure_all c r ((p, event_type) # rest) =
    (case configure_service_hook c r p event_type of
       (tr, Inl e) \<Rightarrow> (tr, Inl e)
     | (tr, Inr u) \<Rightarrow>
         (case configure_all c r rest of (tr', res) \<Rightarrow> (tr @ tr', res)))"

text \<open>The loop over the hooks to delete, likewise.\<close>

fun delete_all :: "client \<Rightarrow> remote \<Rightarrow> hook list \<Rightarrow> event list \<times> (exn + unit)" where
  "delete_all c r [] = ([], Inr ())"
| "delete_all c r (h # rest) =
    (case delete_service_hook c r h of
       (tr, Inl e) \<Rightarrow> (tr, Inl e)
     | (tr, Inr u) \<Rightarrow>
         (case delete_all c r rest of (tr', res) \<Rightarrow> (tr @ tr', res)))"

text \<open>
  \<open>install_hooks\<close> from the line after \<open>list_projects\<close> has returned: the filter on the
  project name, the query of the existing hooks, the scan, the confirmation and the
  creations. \<open>yesno\<close> is the line the user would type at the prompt.
\<close>

definition scope_projects :: "client \<Rightarrow> project list \<Rightarrow> project list" where
  "scope_projects c listed =
    (case project c of
       None \<Rightarrow> listed
     | Some name \<Rightarrow> filter (\<lambda>p. project_name p = name) listed)"

definition install_listed ::
  "client \<Rightarrow> remote \<Rightarrow> string \<Rightarrow> project list \<Rightarrow> event list \<times> outcome" where
  "install_listed c r yesno listed =
    (let projects = scope_projects c listed
     in
     if length projects = 0
     then ([Print (case project c of
                     None \<Rightarrow> NoProjectsFound
                   | Some name \<Rightarrow> ProjectNotFound name)], Returned)
     else
       case get_existing_hooks c r of
         (tr2, Inl e) \<Rightarrow> (tr2, Raised e)
       | (tr2, Inr hooks) \<Rightarrow>
           (case scan_projects (existing_hooks_by_project_type hooks) projects of
              (toProcess, numProjectsMissingAtLeastOne) \<Rightarrow>
                if length toProcess = 0
                then (tr2 @ [Print (case project c of
                                      None \<Rightarrow> AllAlreadyConfigured (length projects)
                                    | Some name \<Rightarrow> ProjectAlreadyConfigured name)],
                      Returned)
                else if project c = None \<and> \<not> confirmed yesno
                then (tr2 @ [Input (ConfirmInstall numProjectsMissingAtLeastOne
                                      (length projects)),
                             Print Exiting],
                      Exited 1)
                else
                  (let asked = (if project c = None
                                then [Input (ConfirmInstall numProjectsMissingAtLeastOne
                                               (length projects))]
                                else [])
                   in
                   case configure_all c r toProcess of
                     (tr3, Inl e) \<Rightarrow> (tr2 @ asked @ tr3, Raised e)
                   | (tr3, Inr u) \<Rightarrow>
                       (tr2 @ asked @ tr3 @
                          [Print (case project c of
                                    None \<Rightarrow> ConfiguredAll (length toProcess)
                                              numProjectsMissingAtLeastOne
                                  | Some name \<Rightarrow> ConfiguredProject (length toProcess) name)],
                        Returned))))"

definition install_hooks ::
  "client \<Rightarrow> remote \<Rightarrow> nat \<Rightarrow> string \<Rightarrow> event list \<times> outcome" where
  "install_hooks c r depth yesno =
    (case validate_dd_api_key c r of
       (tr0, Inl e) \<Rightarrow> (tr0, Raised e)
     | (tr0, Inr u) \<Rightarrow>
         (case list_projects r depth None of
            (tr1, Inl e) \<Rightarrow> (tr0 @ tr1, Raised e)
          | (tr1, Inr listed) \<Rightarrow>
              (case install_listed c r yesno listed of
                 (tr, out) \<Rightarrow> (tr0 @ tr1 @ tr, out))))"

definition uninstall_hooks :: "client \<Rightarrow> remote \<Rightarrow> string \<Rightarrow> event list \<times> outcome" where
  "uninstall_hooks c r yesno =
    (if project c \<noteq> None
     then ([Print SingleProjectUnsupported], Returned)
     else
       case get_existing_hooks c r of
         (tr, Inl e) \<Rightarrow> (tr, Raised e)
       | (tr, Inr hooks) \<Rightarrow>
           if length hooks = 0
           then (tr @ [Print NoHooksFound], Returned)
           else
             (let project_count = length (remdups (map hook_projectId hooks));
                  asked = [Print (FoundHooks (length hooks) project_count),
                           Input (ConfirmUninstall project_count)]
              in
              if \<not> confirmed yesno
              then (tr @ asked @ [Print Exiting], Exited 1)
              else
                case delete_all c r hooks of
                  (tr', Inl e) \<Rightarrow> (tr @ asked @ tr', Raised e)
                | (tr', Inr u) \<Rightarrow>
                    (tr @ asked @ tr' @
                       [Print (UninstalledAll (length hooks) project_count)],
                     Returned)))"

section \<open>The entry point\<close>

text \<open>The parsed command line and the two environment variables the script reads.\<close>

record args =
  arg_dd_site :: "string option"
  arg_az_devops_org :: "string option"
  arg_verbose :: bool
  arg_uninstall :: bool
  arg_project :: "string option"

record environ =
  AZURE_DEVOPS_TOKEN :: "string option"
  DD_API_KEY :: "string option"

definition unset :: "string option \<Rightarrow> bool" where
  "unset v = (v = None \<or> v = Some [])"

text \<open>
  \<open>main\<close> after \<open>parse_args\<close>, with the exit status of the process: \<open>exit(1)\<close> ends it
  with 1, an exception that nothing catches ends it with 1 as well, and returning from
  \<open>main\<close> ends it with 0. The handler of \<open>AzureDevOpsException\<close> reads
  \<open>e.response.status_code\<close> first; the response and the \<open>HTTPError\<close> of \<open>urllib\<close> have no
  such attribute, so the handler raises \<open>AttributeError\<close> before it prints either of its
  messages, and the process ends with status 1 like after any other exception.
\<close>

definition main :: "args \<Rightarrow> environ \<Rightarrow> remote \<Rightarrow> nat \<Rightarrow> string \<Rightarrow> event list \<times> nat" where
  "main a env r depth yesno =
    (case AZURE_DEVOPS_TOKEN env of
       None \<Rightarrow> ([Print TokenNotSet], 1)
     | Some token \<Rightarrow>
         if token = [] then ([Print TokenNotSet], 1)
         else if \<not> arg_uninstall a \<and> unset (DD_API_KEY env)
         then ([Print ApiKeyNotSet], 1)
         else
           (let c = \<lparr> az_devops_token = token,
                      az_devops_org = arg_az_devops_org a,
                      dd_site = arg_dd_site a,
                      dd_api_key = DD_API_KEY env,
                      verbose = arg_verbose a,
                      project = arg_project a \<rparr>
            in
            case (if arg_uninstall a then uninstall_hooks c r yesno
                  else install_hooks c r depth yesno) of
              (tr, Returned) \<Rightarrow> (tr, 0)
            | (tr, Exited n) \<Rightarrow> (tr, n)
            | (tr, Raised (AzureDevOpsException m s)) \<Rightarrow> (tr, 1)
            | (tr, Raised other) \<Rightarrow> (tr, 1)))"

section \<open>Reading a trace\<close>

text \<open>The creation bodies, the prompts, the messages and the requests of a trace, in order.\<close>

fun creation_of :: "event \<Rightarrow> payload list" where
  "creation_of (Http (AZ_CreateSubscription pl)) = [pl]"
| "creation_of e = []"

definition creations :: "event list \<Rightarrow> payload list" where
  "creations tr = concat (map creation_of tr)"

fun prompt_of :: "event \<Rightarrow> prompt list" where
  "prompt_of (Input q) = [q]"
| "prompt_of e = []"

definition prompts :: "event list \<Rightarrow> prompt list" where
  "prompts tr = concat (map prompt_of tr)"

fun message_of :: "event \<Rightarrow> message list" where
  "message_of (Print m) = [m]"
| "message_of e = []"

definition prints :: "event list \<Rightarrow> message list" where
  "prints tr = concat (map message_of tr)"

fun request_of :: "event \<Rightarrow> request list" where
  "request_of (Http rq) = [rq]"
| "request_of e = []"

definition requests :: "event list \<Rightarrow> request list" where
  "requests tr = concat (map request_of tr)"

text \<open>The event of the creation request for one pair of \<open>toProcess\<close>.\<close>

definition create_event :: "client \<Rightarrow> string \<Rightarrow> project \<times> string \<Rightarrow> event" where
  "create_event c key pe =
    Http (AZ_CreateSubscription (subscription_payload c key (fst pe) (snd pe)))"

text \<open>
  A remote serves the pages \<open>pages\<close> from the token \<open>tok\<close> on: the request with \<open>tok\<close> is
  answered 200 with the first page, every page but the last carries a token that counts
  (it is present and not empty) and leads to the next page, and the last page carries none.
\<close>

fun paged :: "remote \<Rightarrow> string option \<Rightarrow> page list \<Rightarrow> bool" where
  "paged r tok [] = False"
| "paged r tok (pg # pgs) =
    (projects_response r tok = Response 200 pg \<and>
     (if pgs = [] then \<not> truthy (page_continuation_token pg)
      else truthy (page_continuation_token pg) \<and> paged r (page_continuation_token pg) pgs))"

text \<open>
  The listing from the token \<open>tok\<close> on needs more than \<open>depth\<close> nested calls: every one of
  the first \<open>depth\<close> requests is answered 200 with a page that carries a token that counts.
\<close>

fun exceeds :: "remote \<Rightarrow> nat \<Rightarrow> string option \<Rightarrow> bool" where
  "exceeds r 0 tok = True"
| "exceeds r (Suc depth) tok =
    (case projects_response r (if truthy tok then tok else None) of
       Response s data \<Rightarrow>
         s = 200 \<and> truthy (page_continuation_token data)
         \<and> exceeds r depth (page_continuation_token data)
     | HTTPError code \<Rightarrow> False)"

text \<open>
  A request is refused by the remote when its answer is not the one the gateway accepts:
  status 200 for the validation, the listing, the query and the creation, 204 for the
  deletion.
\<close>

fun accepted :: "nat \<Rightarrow> 'a http_outcome \<Rightarrow> bool" where
  "accepted ok (Response s b) = (s = ok)"
| "accepted ok (HTTPError code) = False"

fun refused :: "remote \<Rightarrow> request \<Rightarrow> bool" where
  "refused r DD_Validate = (\<not> accepted 200 (validate_response r))"
| "refused r (AZ_ListProjects tok) = (\<not> accepted 200 (projects_response r tok))"
| "refused r (AZ_QuerySubscriptions url) = (\<not> accepted 200 (subscriptionsquery_response r))"
| "refused r (AZ_CreateSubscription pl) = (\<not> accepted 200 (create_response r pl))"
| "refused r (AZ_DeleteSubscription i) = (status_code (delete_response r i) \<noteq> 204)"

definition remote_error :: "remote \<Rightarrow> event list \<Rightarrow> bool" where
  "remote_error r tr = list_ex (refused r) (requests tr)"


text \<open>The user declined: a prompt was shown and the answer is neither yes nor y.\<close>

definition declined :: "event list \<Rightarrow> string \<Rightarrow> bool" where
  "declined tr yesno = (prompts tr \<noteq> [] \<and> \<not> confirmed yesno)"

section \<open>Concrete inputs\<close>

definition alpha1 :: project where
  "alpha1 = \<lparr> project_id = ''p1'', project_name = ''Alpha'' \<rparr>"

definition alpha2 :: project where
  "alpha2 = \<lparr> project_id = ''p2'', project_name = ''Alpha'' \<rparr>"

definition push_hook :: hook where
  "push_hook = \<lparr> hook_id = ''h1'', hook_projectId = ''p1'', hook_eventType = ''git.push'' \<rparr>"

definition first_page :: page where
  "first_page = \<lparr> page_value = [alpha1], page_continuation_token = Some ''next'' \<rparr>"

definition last_page :: page where
  "last_page = \<lparr> page_value = [alpha2], page_continuation_token = None \<rparr>"

text \<open>
  A remote that accepts everything, lists two projects of the same name on two pages and
  has one hook; and the same remote answering every creation with 201.
\<close>

definition remote_ok :: remote where
  "remote_ok =
    \<lparr> validate_response = Response 200 (),
      projects_response = (\<lambda>tok. if tok = None then Response 200 first_page
                                  else Response 200 last_page),
      subscriptionsquery_response = Response 200 [push_hook],
      create_response = (\<lambda>pl. Response 200 ()),
      delete_response = (\<lambda>i. Response 204 ()) \<rparr>"

text \<open>
  A remote whose listing has \<open>n\<close> pages of one project each: page \<open>k\<close> is asked for
  with a token of \<open>k\<close> characters (the first page with none) and carries the token of
  page \<open>k + 1\<close> unless it is the last.
\<close>

definition long_token :: "nat \<Rightarrow> string option" where
  "long_token k = (if k = 0 then None else Some (replicate k (CHR ''x'')))"

definition long_page :: "nat \<Rightarrow> nat \<Rightarrow> page" where
  "long_page n k =
    \<lparr> page_value = [\<lparr> project_id = replicate (Suc k) (CHR ''p''), project_name = ''Page'' \<rparr>],
      page_continuation_token = (if Suc k < n then long_token (Suc k) else None) \<rparr>"

definition long_remote :: "nat \<Rightarrow> remote" where
  "long_remote n =
    remote_ok \<lparr> projects_response :=
                  (\<lambda>tok. Response 200 (long_page n (case tok of None \<Rightarrow> 0
                                                     | Some t \<Rightarrow> length t))) \<rparr>"


definition remote_201 :: remote where
  "remote_201 = remote_ok \<lparr> create_response := (\<lambda>pl. Response 201 ()) \<rparr>"

text \<open>The hook a remote holds once it has accepted a creation request.\<close>

definition created_hook :: "payload \<Rightarrow> hook" where
  "created_hook pl =
    \<lparr> hook_id = ''created'',
      hook_projectId = publisherInputs_projectId pl,
      hook_eventType = eventType pl \<rparr>"

definition client_all :: client where
  "client_all =
    \<lparr> az_devops_token = ''token'',
      az_devops_org = Some ''org'',
      dd_site = Some ''datadoghq.com'',
      dd_api_key = Some ''key'',
      verbose = False,
      project = None \<rparr>"

definition client_alpha :: client where
  "client_alpha = client_all \<lparr> project := Some ''Alpha'' \<rparr>"

definition args_install :: args where
  "args_install =
    \<lparr> arg_dd_site = Some ''datadoghq.com'',
      arg_az_devops_org = Some ''org'',
      arg_verbose = False,
      arg_uninstall = False,
      arg_project = None \<rparr>"

definition args_uninstall_alpha :: args where
  "args_uninstall_alpha = args_install \<lparr> arg_uninstall := True, arg_project := Some ''Alpha'' \<rparr>"

definition environ_ok :: environ where
  "environ_ok = \<lparr> AZURE_DEVOPS_TOKEN = Some ''token'', DD_API_KEY = Some ''key'' \<rparr>"

section \<open>Reconciliation selects the missing pairs\<close>

lemma existing_lookup_fold:
  "(fold (\<lambda>h m. m(hook_key h \<mapsto> h)) hooks m k = None) =
     (m k = None \<and> k \<notin> hook_key ` set hooks)"
  by (induction hooks arbitrary: m) auto

lemma existing_lookup:
  "(existing_hooks_by_project_type hooks k = None) = (k \<notin> hook_key ` set hooks)"
  by (simp add: existing_hooks_by_project_type_def existing_lookup_fold)

lemma scan_fold_event_types:
  "fold (\<lambda>event_type (acc, missingAtLeastOne).
            if existing (project_id p, event_type) = None
            then (acc @ [(p, event_type)], True)
            else (acc, missingAtLeastOne)) es (acc0, b0)
   = (acc0 @ map (Pair p) (filter (\<lambda>e. existing (project_id p, e) = None) es),
      b0 \<or> list_ex (\<lambda>e. existing (project_id p, e) = None) es)"
  by (induction es arbitrary: acc0 b0) auto

lemma scan_event_types_eq:
  "scan_event_types existing p acc0 =
     (acc0 @ map (Pair p) (missing_types existing p), missing_types existing p \<noteq> [])"
  by (simp add: scan_event_types_def scan_fold_event_types missing_types_def
      list_ex_iff filter_empty_conv)

lemma scan_fold_projects:
  "fold (\<lambda>p (toProcess, numProjectsMissingAtLeastOne).
            case scan_event_types existing p toProcess of
              (acc, missingAtLeastOne) \<Rightarrow>
                (acc, if missingAtLeastOne then numProjectsMissingAtLeastOne + 1
                      else numProjectsMissingAtLeastOne)) ps (acc0, n0)
   = (acc0 @ concat (map (\<lambda>p. map (Pair p) (missing_types existing p)) ps),
      n0 + length (filter (\<lambda>p. missing_types existing p \<noteq> []) ps))"
  by (induction ps arbitrary: acc0 n0) (auto simp: scan_event_types_eq)

lemma scan_projects_eq:
  "scan_projects existing ps =
    (concat (map (\<lambda>p. map (Pair p) (missing_types existing p)) ps),
     length (filter (\<lambda>p. missing_types existing p \<noteq> []) ps))"
  by (simp add: scan_projects_def scan_fold_projects)

text \<open>
  C1. For every list of projects in scope and every list of existing hooks, the list
  \<open>toProcess\<close> that \<open>install_hooks\<close> builds is the projects in listing order, each with
  the event types, in declared order, for which no existing hook has the key made of the
  project's identifier and the event type. As a set it is the difference between the
  pairs wanted and the keys that exist. \<open>EVENT_TYPES\<close> has nine distinct entries.
\<close>

theorem install_selects_exactly_the_missing_pairs:
  "fst (scan_projects (existing_hooks_by_project_type hooks) projects) =
     concat (map (\<lambda>p. map (Pair p)
                    (filter (\<lambda>e. (project_id p, e) \<notin> hook_key ` set hooks) EVENT_TYPES))
              projects)
   \<and> set (fst (scan_projects (existing_hooks_by_project_type hooks) projects)) =
     {(p, e). p \<in> set projects \<and> e \<in> set EVENT_TYPES
              \<and> (project_id p, e) \<notin> hook_key ` set hooks}
   \<and> length EVENT_TYPES = 9 \<and> distinct EVENT_TYPES"
proof -
  have types: "length EVENT_TYPES = 9 \<and> distinct EVENT_TYPES"
    by (simp add: EVENT_TYPES_def)
  have order: "fst (scan_projects (existing_hooks_by_project_type hooks) projects) =
     concat (map (\<lambda>p. map (Pair p)
                    (filter (\<lambda>e. (project_id p, e) \<notin> hook_key ` set hooks) EVENT_TYPES))
              projects)"
    by (simp add: scan_projects_eq missing_types_def existing_lookup)
  have "set (fst (scan_projects (existing_hooks_by_project_type hooks) projects)) =
     {(p, e). p \<in> set projects \<and> e \<in> set EVENT_TYPES
              \<and> (project_id p, e) \<notin> hook_key ` set hooks}"
    unfolding order by auto
  with types order show ?thesis by blast
qed

section \<open>The creation request\<close>

lemma startswith_prefix: "startswith s p = prefix p s"
  unfolding startswith_def prefix_def
  by (metis append_eq_conv_conj append_take_drop_id)

text \<open>
  C5. With an API key set, \<open>configure_service_hook\<close> sends one creation request. Its
  publisher is \<open>pipelines\<close> when the event type starts with \<open>ms.vss-pipelines.\<close> or with
  \<open>ms.vss-pipelinechecks-events.\<close>, and \<open>tfs\<close> otherwise; its resource version is the
  entry of \<open>EVENT_TYPE_VERSIONS\<close> when there is one and \<open>latest\<close> otherwise. For the
  run-state-changed event of the pipelines it is \<open>pipelines\<close> with \<open>latest\<close>, for
  \<open>git.push\<close> it is \<open>tfs\<close> with \<open>1.0\<close>.
\<close>

theorem creation_request_publisher_and_version:
  "fst (configure_service_hook (c\<lparr>dd_api_key := Some key\<rparr>) r p e) =
     [Http (AZ_CreateSubscription (subscription_payload (c\<lparr>dd_api_key := Some key\<rparr>) key p e))]
   \<and> publisherId (subscription_payload c key p e) =
       (if prefix ''ms.vss-pipelines.'' e \<or> prefix ''ms.vss-pipelinechecks-events.'' e
        then ''pipelines'' else ''tfs'')
   \<and> resourceVersion (subscription_payload c key p e) =
       (case map_of EVENT_TYPE_VERSIONS e of Some v \<Rightarrow> v | None \<Rightarrow> ''latest'')
   \<and> publisherId (subscription_payload c key p ''ms.vss-pipelines.run-state-changed-event'')
       = ''pipelines''
   \<and> resourceVersion (subscription_payload c key p ''ms.vss-pipelines.run-state-changed-event'')
       = ''latest''
   \<and> publisherId (subscription_payload c key p ''git.push'') = ''tfs''
   \<and> resourceVersion (subscription_payload c key p ''git.push'') = ''1.0''"
  by (simp add: configure_service_hook_def subscription_payload_def get_publisher_id_def
      resource_version_def startswith_prefix DEFAULT_RESOURCE_VERSION_def
      EVENT_TYPE_VERSIONS_def VERSION_1_0_def)

section \<open>Which answers the gateway accepts\<close>

text \<open>
  C2, as the code has it. With an API key set, \<open>configure_service_hook\<close> succeeds exactly
  when \<open>urlopen\<close> returns a response of status 200. Every other status, 201 included,
  and every \<open>HTTPError\<close> raises \<open>AzureDevOpsException\<close> with that status.
\<close>

theorem configure_service_hook_accepts_only_200:
  "snd (configure_service_hook (c\<lparr>dd_api_key := Some key\<rparr>) r p e) =
     (if create_response r (subscription_payload (c\<lparr>dd_api_key := Some key\<rparr>) key p e)
           = Response 200 ()
      then Inr ()
      else Inl (AzureDevOpsException
                  (''Error configuring service hook for project '' @ project_name p)
                  (status_code (create_response r
                     (subscription_payload (c\<lparr>dd_api_key := Some key\<rparr>) key p e)))))"
  by (simp add: configure_service_hook_def split: http_outcome.splits)

text \<open>
  C2, as the claim has it, fails: a creation answered with status 201 raises
  \<open>AzureDevOpsException\<close>.
\<close>

theorem configure_service_hook_201_counterexample:
  "create_response remote_201 (subscription_payload client_all ''key'' alpha1 ''git.push'')
     = Response 201 ()
   \<and> snd (configure_service_hook client_all remote_201 alpha1 ''git.push'')
     = Inl (AzureDevOpsException ''Error configuring service hook for project Alpha'' 201)"
  by (simp add: configure_service_hook_def remote_201_def remote_ok_def client_all_def alpha1_def)

text \<open>
  C6. Whatever \<open>urlopen\<close> does with the deletion request, a response or an \<open>HTTPError\<close>,
  \<open>delete_service_hook\<close> succeeds when the status code is 204 and raises
  \<open>AzureDevOpsException\<close> with the status code otherwise.
\<close>

theorem delete_service_hook_succeeds_iff_204:
  "snd (delete_service_hook c r h) =
     (if status_code (delete_response r (hook_id h)) = 204 then Inr ()
      else Inl (AzureDevOpsException (''Error deleting service hook '' @ hook_id h)
                  (status_code (delete_response r (hook_id h)))))"
  by (simp add: delete_service_hook_def split: http_outcome.splits)

section \<open>Facts about traces\<close>

lemma creations_simps [simp]:
  "creations [] = []"
  "creations (e # tr) = creation_of e @ creations tr"
  "creations (tr @ tr') = creations tr @ creations tr'"
  by (simp_all add: creations_def)

lemma prompts_simps [simp]:
  "prompts [] = []"
  "prompts (e # tr) = prompt_of e @ prompts tr"
  "prompts (tr @ tr') = prompts tr @ prompts tr'"
  by (simp_all add: prompts_def)

lemma prints_simps [simp]:
  "prints [] = []"
  "prints (e # tr) = message_of e @ prints tr"
  "prints (tr @ tr') = prints tr @ prints tr'"
  by (simp_all add: prints_def)

lemma requests_simps [simp]:
  "requests [] = []"
  "requests (e # tr) = request_of e @ requests tr"
  "requests (tr @ tr') = requests tr @ requests tr'"
  by (simp_all add: requests_def)

lemma remote_error_simps [simp]:
  "remote_error r [] = False"
  "remote_error r (Http rq # tr) = (refused r rq \<or> remote_error r tr)"
  "remote_error r (Print m # tr) = remote_error r tr"
  "remote_error r (Input q # tr) = remote_error r tr"
  "remote_error r (tr @ tr') = (remote_error r tr \<or> remote_error r tr')"
  by (auto simp: remote_error_def list_ex_iff)

section \<open>Listing the projects\<close>

lemma list_projects_paged:
  "paged r tok pages \<Longrightarrow> tok = None \<or> truthy tok \<Longrightarrow>
   list_projects r depth tok =
     (if length pages \<le> depth
      then (map (\<lambda>t. Http (AZ_ListProjects t))
              (tok # map page_continuation_token (butlast pages)),
            Inr (concat (map page_value pages)))
      else (map (\<lambda>t. Http (AZ_ListProjects t))
              (take depth (tok # map page_continuation_token (butlast pages))),
            Inl RecursionError))"
proof (induction pages arbitrary: tok depth)
  case Nil
  then show ?case by simp
next
  case (Cons pg pgs)
  from Cons.prems have sent: "(if truthy tok then tok else None) = tok" by auto
  from Cons.prems have resp: "projects_response r tok = Response 200 pg" by simp
  show ?case
  proof (cases depth)
    case 0
    then show ?thesis by simp
  next
    case (Suc d)
    show ?thesis
    proof (cases "pgs = []")
      case True
      with Cons.prems have "\<not> truthy (page_continuation_token pg)" by simp
      with True Suc sent resp show ?thesis by simp
    next
      case False
      with Cons.prems have more: "truthy (page_continuation_token pg)"
        and rest: "paged r (page_continuation_token pg) pgs" by simp_all
      from Cons.IH [OF rest, of d] more
      have "list_projects r d (page_continuation_token pg) =
        (if length pgs \<le> d
         then (map (\<lambda>t. Http (AZ_ListProjects t))
                 (page_continuation_token pg # map page_continuation_token (butlast pgs)),
               Inr (concat (map page_value pgs)))
         else (map (\<lambda>t. Http (AZ_ListProjects t))
                 (take d (page_continuation_token pg # map page_continuation_token (butlast pgs))),
               Inl RecursionError))" by simp
      with False Suc sent resp more show ?thesis by simp
    qed
  qed
qed

text \<open>
  C4, as the code has it. When the remote serves a sequence of pages, each page but the
  last carrying a token in the field \<open>continuation_token\<close> that the code reads (present
  and not empty) and the last carrying none, and the pages are no more than the nested
  calls the interpreter has room for, \<open>list_projects\<close> returns, after one request for
  each page, the concatenation of the pages' project lists in page order: every page
  once, none left out. With more pages than that it raises \<open>RecursionError\<close> after as many
  requests as calls fit.
\<close>

theorem list_projects_concatenates_pages:
  assumes "paged r None pages"
  shows "snd (list_projects r depth None) =
           (if length pages \<le> depth then Inr (concat (map page_value pages))
            else Inl RecursionError)
       \<and> length (fst (list_projects r depth None)) = min (length pages) depth"
proof -
  from assms have "pages \<noteq> []" by auto
  then have "length (butlast pages) + 1 = length pages" by simp
  with list_projects_paged [OF assms, of depth] show ?thesis by auto
qed

theorem list_projects_concatenates_pages_witness:
  "paged remote_ok None [first_page, last_page]
   \<and> snd (list_projects remote_ok 1000 None) = Inr [alpha1, alpha2]
   \<and> length (fst (list_projects remote_ok 1000 None)) = length [first_page, last_page]"
  using list_projects_concatenates_pages [of remote_ok "[first_page, last_page]" 1000]
  by (simp add: remote_ok_def first_page_def last_page_def)

lemma long_token_counts: "long_token k = None \<or> truthy (long_token k)"
  by (simp add: long_token_def)

lemma long_remote_page:
  "projects_response (long_remote n) (long_token k) = Response 200 (long_page n k)"
  by (simp add: long_remote_def long_token_def)

lemma long_paged:
  "k < n \<Longrightarrow> paged (long_remote n) (long_token k) (map (long_page n) [k..<n])"
proof (induction k rule: strict_inc_induct)
  case (base k)
  then have "[k..<n] = [k]" by (simp add: upt_rec)
  with base show ?case
    by (simp add: long_remote_page) (simp add: long_page_def)
next
  case (step k)
  from step(1) have split: "[k..<n] = k # [Suc k..<n]" by (simp add: upt_rec)
  from step(1) have tok: "page_continuation_token (long_page n k) = long_token (Suc k)"
    by (cases "Suc k < n") (simp_all add: long_page_def long_token_def)
  have "truthy (long_token (Suc k))" by (simp add: long_token_def)
  with step tok split show ?case
    by (simp add: long_remote_page)
qed

text \<open>
  C4, as the claim has it, fails: a listing of 2000 pages, each but the last with its
  token, is not returned when the interpreter has room for 1000 nested calls;
  \<open>RecursionError\<close> is raised.
\<close>

theorem list_projects_long_listing_counterexample:
  "paged (long_remote 2000) None (map (long_page 2000) [0..<2000])
   \<and> snd (list_projects (long_remote 2000) 1000 None) = Inl RecursionError"
proof -
  have served: "paged (long_remote 2000) (long_token 0) (map (long_page 2000) [0..<2000])"
    by (rule long_paged) simp
  have none: "long_token 0 = None" by (simp add: long_token_def)
  from list_projects_paged [OF served long_token_counts, of 1000] served none
  show ?thesis by simp
qed

text \<open>
  What a listing has done: it has sent listing requests only. When it returns the
  projects, no request was refused and the listing fitted; when it raises, either the
  listing needed more nested calls than fit, no request was refused and the exception is
  \<open>RecursionError\<close>, or a request was refused and the exception is
  \<open>AzureDevOpsException\<close>.
\<close>

lemma list_projects_trace:
  "(\<forall>e\<in>set (fst (list_projects r depth tok)). \<exists>t. e = Http (AZ_ListProjects t))
   \<and> (case snd (list_projects r depth tok) of
        Inr ps \<Rightarrow> \<not> remote_error r (fst (list_projects r depth tok)) \<and> \<not> exceeds r depth tok
      | Inl e \<Rightarrow>
          if exceeds r depth tok
          then e = RecursionError \<and> \<not> remote_error r (fst (list_projects r depth tok))
          else remote_error r (fst (list_projects r depth tok))
               \<and> (\<exists>m s. e = AzureDevOpsException m s))"
proof (induction depth arbitrary: tok)
  case 0
  show ?case by simp
next
  case (Suc d)
  show ?case
  proof (cases "projects_response r (if truthy tok then tok else None)")
    case (HTTPError code)
    then show ?thesis by (simp add: Let_def)
  next
    case (Response s data)
    show ?thesis
    proof (cases "s = 200 \<and> truthy (page_continuation_token data)")
      case False
      with Response show ?thesis by (auto simp: Let_def)
    next
      case True
      obtain tr res where rec: "list_projects r d (page_continuation_token data) = (tr, res)"
        by (cases "list_projects r d (page_continuation_token data)")
      from Suc [of "page_continuation_token data"] rec True Response show ?thesis
        by (cases res) (auto simp: Let_def split: if_splits)
    qed
  qed
qed

text \<open>The listing depends on the remote through the answers to listing requests only.\<close>

lemma list_projects_cong:
  assumes "projects_response r' = projects_response r"
  shows "list_projects r' depth tok = list_projects r depth tok"
proof (induction depth arbitrary: tok)
  case 0
  show ?case by simp
next
  case (Suc d)
  have eq: "projects_response r' (if truthy tok then tok else None) =
            projects_response r (if truthy tok then tok else None)"
    using assms by simp
  show ?case
    by (simp only: list_projects.simps eq Suc)
qed

section \<open>The loops and the gateway, as traces\<close>

lemma listing_trace_silent:
  "\<forall>e\<in>set tr. \<exists>tok. e = Http (AZ_ListProjects tok) \<Longrightarrow>
     creations tr = [] \<and> prompts tr = [] \<and> prints tr = []"
  by (induction tr) auto

lemma list_projects_silent:
  "creations (fst (list_projects r depth tok)) = []"
  "prompts (fst (list_projects r depth tok)) = []"
  "prints (fst (list_projects r depth tok)) = []"
  using list_projects_trace [of r depth tok]
    listing_trace_silent [of "fst (list_projects r depth tok)"] by simp_all

lemma validate_dd_api_key_eq:
  "validate_dd_api_key c r =
    ([Http DD_Validate],
     if accepted 200 (validate_response r) then Inr ()
     else Inl (Exception (case validate_response r of
                            Response s b \<Rightarrow> ''Invalid Datadog API key!''
                          | HTTPError code \<Rightarrow> ''Error validating Datadog API key!'')))"
  by (simp add: validate_dd_api_key_def split: http_outcome.splits)

lemma get_existing_hooks_eq:
  "get_existing_hooks c r =
    ([Http (AZ_QuerySubscriptions (webhook_url c))],
     case subscriptionsquery_response r of
       Response s results \<Rightarrow>
         if accepted 200 (subscriptionsquery_response r) then Inr results
         else Inl (AzureDevOpsException ''Error listing service hooks'' s)
     | HTTPError code \<Rightarrow> Inl (AzureDevOpsException ''Error listing service hooks'' code))"
  by (simp add: get_existing_hooks_def split: http_outcome.splits)

lemma configure_all_trace:
  assumes "dd_api_key c = Some key"
  shows "\<exists>k\<le>length tp.
           fst (configure_all c r tp) = map (create_event c key) (take k tp)
           \<and> (tp \<noteq> [] \<longrightarrow> 0 < k)
           \<and> (case snd (configure_all c r tp) of
                Inr u \<Rightarrow> k = length tp \<and> \<not> remote_error r (fst (configure_all c r tp))
              | Inl e \<Rightarrow> remote_error r (fst (configure_all c r tp))
                         \<and> (\<exists>m s. e = AzureDevOpsException m s))"
proof (induction tp)
  case Nil
  show ?case by simp
next
  case (Cons pe tp)
  obtain p e where pe: "pe = (p, e)" by (cases pe)
  from Cons obtain k where k: "k \<le> length tp"
    "fst (configure_all c r tp) = map (create_event c key) (take k tp)"
    "case snd (configure_all c r tp) of
                Inr u \<Rightarrow> k = length tp \<and> \<not> remote_error r (fst (configure_all c r tp))
              | Inl e \<Rightarrow> remote_error r (fst (configure_all c r tp))
                         \<and> (\<exists>m s. e = AzureDevOpsException m s)" by blast
  show ?case
  proof (cases "accepted 200 (create_response r (subscription_payload c key p e))")
    case False
    with assms pe show ?thesis
      by (intro exI [of _ 1])
         (auto simp: configure_service_hook_def create_event_def split: http_outcome.splits)
  next
    case True
    with assms pe k show ?thesis
      by (intro exI [of _ "Suc k"])
         (auto simp: configure_service_hook_def create_event_def
               split: http_outcome.splits prod.splits sum.splits)
  qed
qed

lemma configure_all_no_key:
  "dd_api_key c = None \<Longrightarrow> tp \<noteq> [] \<Longrightarrow> configure_all c r tp = ([], Inl TypeError)"
  by (cases tp) (auto simp: configure_service_hook_def)


lemma create_events_silent [simp]:
  "prompts (map (create_event c key) tp) = []"
  "prints (map (create_event c key) tp) = []"
  "creations (map (create_event c key) tp) =
     map (\<lambda>pe. subscription_payload c key (fst pe) (snd pe)) tp"
  by (induction tp) (simp_all add: create_event_def)

lemma delete_events_silent [simp]:
  "prompts (map (\<lambda>h. Http (AZ_DeleteSubscription (hook_id h))) hs) = []"
  "prints (map (\<lambda>h. Http (AZ_DeleteSubscription (hook_id h))) hs) = []"
  "creations (map (\<lambda>h. Http (AZ_DeleteSubscription (hook_id h))) hs) = []"
  by (induction hs) simp_all

section \<open>The install workflow, case by case\<close>

text \<open>
  With an API key set, \<open>install_listed\<close> ends in one of six ways; each comes with its
  trace.
\<close>

lemma install_listed_cases [consumes 1, case_names no_scope query_failed nothing_missing
    declined configure_failed configured]:
  assumes key: "dd_api_key c = Some key"
  obtains
    (no_scope) "scope_projects c listed = []"
      "install_listed c r yesno listed =
         ([Print (case project c of None \<Rightarrow> NoProjectsFound
                  | Some name \<Rightarrow> ProjectNotFound name)], Returned)"
  | (query_failed) m s where "scope_projects c listed \<noteq> []"
      "\<not> accepted 200 (subscriptionsquery_response r)"
      "install_listed c r yesno listed =
         ([Http (AZ_QuerySubscriptions (webhook_url c))], Raised (AzureDevOpsException m s))"
  | (nothing_missing) hooks where "scope_projects c listed \<noteq> []"
      "subscriptionsquery_response r = Response 200 hooks"
      "fst (scan_projects (existing_hooks_by_project_type hooks) (scope_projects c listed)) = []"
      "install_listed c r yesno listed =
         ([Http (AZ_QuerySubscriptions (webhook_url c)),
           Print (case project c of
                    None \<Rightarrow> AllAlreadyConfigured (length (scope_projects c listed))
                  | Some name \<Rightarrow> ProjectAlreadyConfigured name)], Returned)"
  | (declined) hooks toProcess n where "scope_projects c listed \<noteq> []"
      "subscriptionsquery_response r = Response 200 hooks"
      "scan_projects (existing_hooks_by_project_type hooks) (scope_projects c listed)
         = (toProcess, n)"
      "toProcess \<noteq> []" "project c = None" "\<not> confirmed yesno"
      "install_listed c r yesno listed =
         ([Http (AZ_QuerySubscriptions (webhook_url c)),
           Input (ConfirmInstall n (length (scope_projects c listed))),
           Print Exiting], Exited 1)"
  | (configure_failed) hooks toProcess n k m s where "scope_projects c listed \<noteq> []"
      "subscriptionsquery_response r = Response 200 hooks"
      "scan_projects (existing_hooks_by_project_type hooks) (scope_projects c listed)
         = (toProcess, n)"
      "toProcess \<noteq> []" "project c = None \<Longrightarrow> confirmed yesno"
      "0 < k" "k \<le> length toProcess"
      "remote_error r (map (create_event c key) (take k toProcess))"
      "install_listed c r yesno listed =
         (Http (AZ_QuerySubscriptions (webhook_url c)) #
          (if project c = None
           then [Input (ConfirmInstall n (length (scope_projects c listed)))] else []) @
          map (create_event c key) (take k toProcess),
          Raised (AzureDevOpsException m s))"
  | (configured) hooks toProcess n where "scope_projects c listed \<noteq> []"
      "subscriptionsquery_response r = Response 200 hooks"
      "scan_projects (existing_hooks_by_project_type hooks) (scope_projects c listed)
         = (toProcess, n)"
      "toProcess \<noteq> []" "project c = None \<Longrightarrow> confirmed yesno"
      "\<not> remote_error r (map (create_event c key) toProcess)"
      "install_listed c r yesno listed =
         (Http (AZ_QuerySubscriptions (webhook_url c)) #
          (if project c = None
           then [Input (ConfirmInstall n (length (scope_projects c listed)))] else []) @
          map (create_event c key) toProcess @
          [Print (case project c of
                    None \<Rightarrow> ConfiguredAll (length toProcess) n
                  | Some name \<Rightarrow> ConfiguredProject (length toProcess) name)],
          Returned)"
proof (cases "scope_projects c listed = []")
  case True
  then show thesis
    by (intro no_scope) (simp_all add: install_listed_def)
next
  case scope: False
  show thesis
  proof (cases "accepted 200 (subscriptionsquery_response r)")
    case False
    with scope show thesis
      by (cases "subscriptionsquery_response r")
         (auto intro!: query_failed simp: install_listed_def get_existing_hooks_def)
  next
    case True
    then obtain hooks where hooks: "subscriptionsquery_response r = Response 200 hooks"
      by (cases "subscriptionsquery_response r") auto
    obtain toProcess n where scan:
      "scan_projects (existing_hooks_by_project_type hooks) (scope_projects c listed)
         = (toProcess, n)"
      by (cases "scan_projects (existing_hooks_by_project_type hooks) (scope_projects c listed)")
    show thesis
    proof (cases "toProcess = []")
      case True
      with scope hooks scan show thesis
        by (intro nothing_missing [of hooks])
           (simp_all add: install_listed_def get_existing_hooks_def)
    next
      case missing: False
      show thesis
      proof (cases "project c = None \<and> \<not> confirmed yesno")
        case True
        with scope hooks scan missing show thesis
          by (intro declined [of hooks toProcess n])
             (simp_all add: install_listed_def get_existing_hooks_def)
      next
        case go: False
        from configure_all_trace [OF key, of toProcess r] obtain k where k:
          "k \<le> length toProcess"
          "fst (configure_all c r toProcess) = map (create_event c key) (take k toProcess)"
          "toProcess \<noteq> [] \<longrightarrow> 0 < k"
          "case snd (configure_all c r toProcess) of
             Inr u \<Rightarrow> k = length toProcess \<and> \<not> remote_error r (fst (configure_all c r toProcess))
           | Inl e \<Rightarrow> remote_error r (fst (configure_all c r toProcess))
                      \<and> (\<exists>m s. e = AzureDevOpsException m s)"
          by blast
        show thesis
        proof (cases "snd (configure_all c r toProcess)")
          case (Inl e)
          with k obtain m s where e: "e = AzureDevOpsException m s"
            and err: "remote_error r (map (create_event c key) (take k toProcess))"
            by auto
          have "install_listed c r yesno listed =
             (Http (AZ_QuerySubscriptions (webhook_url c)) #
              (if project c = None
               then [Input (ConfirmInstall n (length (scope_projects c listed)))] else []) @
              map (create_event c key) (take k toProcess),
              Raised (AzureDevOpsException m s))"
            using scope hooks scan missing go Inl e k(2)
            by (cases "configure_all c r toProcess")
               (auto simp: install_listed_def get_existing_hooks_def Let_def)
          with scope hooks scan missing go k err show thesis
            by (intro configure_failed [of hooks toProcess n k m s]) simp_all
        next
          case (Inr u)
          with k have full: "fst (configure_all c r toProcess) = map (create_event c key) toProcess"
            and ok: "\<not> remote_error r (map (create_event c key) toProcess)"
            by auto
          have "install_listed c r yesno listed =
             (Http (AZ_QuerySubscriptions (webhook_url c)) #
              (if project c = None
               then [Input (ConfirmInstall n (length (scope_projects c listed)))] else []) @
              map (create_event c key) toProcess @
              [Print (case project c of
                        None \<Rightarrow> ConfiguredAll (length toProcess) n
                      | Some name \<Rightarrow> ConfiguredProject (length toProcess) name)],
              Returned)"
            using scope hooks scan missing go Inr full
            by (cases "configure_all c r toProcess")
               (auto simp: install_listed_def get_existing_hooks_def Let_def)
          with scope hooks scan missing go ok show thesis
            by (intro configured [of hooks toProcess n]) simp_all
        qed
      qed
    qed
  qed
qed

lemma install_hooks_listed:
  assumes "accepted 200 (validate_response r)"
    and "list_projects r depth None = (trp, Inr listed)"
  shows "install_hooks c r depth yesno =
           (Http DD_Validate # trp @ fst (install_listed c r yesno listed),
            snd (install_listed c r yesno listed))"
  using assms
  by (cases "validate_response r")
     (auto simp: install_hooks_def validate_dd_api_key_def split: prod.splits)

lemma install_hooks_cases [consumes 1, case_names validate_failed listing_failed listed]:
  assumes run: "install_hooks c r depth yesno = (tr, out)"
  obtains
    (validate_failed) m where "\<not> accepted 200 (validate_response r)"
      "tr = [Http DD_Validate]" "out = Raised (Exception m)"
  | (listing_failed) trp e where "accepted 200 (validate_response r)"
      "list_projects r depth None = (trp, Inl e)"
      "tr = Http DD_Validate # trp" "out = Raised e"
  | (listed) trp listed where "accepted 200 (validate_response r)"
      "list_projects r depth None = (trp, Inr listed)"
      "tr = Http DD_Validate # trp @ fst (install_listed c r yesno listed)"
      "out = snd (install_listed c r yesno listed)"
proof (cases "accepted 200 (validate_response r)")
  case False
  with run show thesis
    by (cases "validate_response r")
       (auto intro!: validate_failed simp: install_hooks_def validate_dd_api_key_def
             split: if_splits)
next
  case True
  obtain trp res where y: "list_projects r depth None = (trp, res)"
    by (cases "list_projects r depth None")
  show thesis
  proof (cases res)
    case (Inl e)
    with run True y show thesis
      by (cases "validate_response r")
         (auto intro!: listing_failed simp: install_hooks_def validate_dd_api_key_def)
  next
    case (Inr listed)
    from install_hooks_listed [OF True, of depth trp listed c yesno] y Inr run True
    show thesis by (intro listed [of trp listed]) simp_all
  qed
qed

section \<open>Uninstalling with a project named\<close>

text \<open>
  C7. When \<open>--uninstall\<close> is given together with \<open>--project\<close>, \<open>uninstall_hooks\<close> prints
  that a single project is not supported and returns; the whole run of \<open>main\<close> sends no
  HTTP request (no query of the subscriptions, no deletion, nothing else) and shows no
  prompt.
\<close>

theorem uninstall_single_project_sends_nothing:
  assumes "arg_uninstall a" and "arg_project a = Some name"
  shows "uninstall_hooks (c\<lparr>project := Some name\<rparr>) r yesno
           = ([Print SingleProjectUnsupported], Returned)
       \<and> main a env r depth yesno =
           (if unset (AZURE_DEVOPS_TOKEN env) then ([Print TokenNotSet], 1)
            else ([Print SingleProjectUnsupported], 0))
       \<and> requests (fst (main a env r depth yesno)) = []
       \<and> prompts (fst (main a env r depth yesno)) = []"
proof -
  have u: "\<And>c'. project c' = Some name \<Longrightarrow>
             uninstall_hooks c' r yesno = ([Print SingleProjectUnsupported], Returned)"
    by (simp add: uninstall_hooks_def)
  have m: "main a env r depth yesno =
           (if unset (AZURE_DEVOPS_TOKEN env) then ([Print TokenNotSet], 1)
            else ([Print SingleProjectUnsupported], 0))"
    using assms by (auto simp: main_def unset_def u split: option.splits)
  from u [of "c\<lparr>project := Some name\<rparr>"] m show ?thesis by auto
qed

theorem uninstall_single_project_sends_nothing_witness:
  "arg_uninstall args_uninstall_alpha \<and> arg_project args_uninstall_alpha = Some ''Alpha''
   \<and> main args_uninstall_alpha environ_ok remote_ok 1000 ''yes''
       = ([Print SingleProjectUnsupported], 0)
   \<and> requests [Print SingleProjectUnsupported] = []"
  using uninstall_single_project_sends_nothing
          [of args_uninstall_alpha "''Alpha''" client_all remote_ok "''yes''" environ_ok 1000]
  by (simp add: args_uninstall_alpha_def args_install_def environ_ok_def unset_def)

section \<open>The confirmation before installing\<close>

lemma list_projects_remote_ok:
  "list_projects remote_ok 1000 None =
     ([Http (AZ_ListProjects None), Http (AZ_ListProjects (Some ''next''))],
      Inr [alpha1, alpha2])"
  using list_projects_paged [of remote_ok None "[first_page, last_page]" 1000]
  by (simp add: remote_ok_def first_page_def last_page_def)

lemma hd_creations_take:
  "tp \<noteq> [] \<Longrightarrow> 0 < k \<Longrightarrow>
     creations (map (create_event c key) (take k tp)) \<noteq> []
     \<and> hd (creations (map (create_event c key) (take k tp))) =
         subscription_payload c key (fst (hd tp)) (snd (hd tp))"
  by (cases tp; cases k) (simp_all add: create_event_def)

text \<open>
  C8. Take an install run with a key set whose validation, listing and query are accepted
  and which finds at least one pair missing. When no project is named, the run shows the
  confirmation prompt, with no creation request and no other prompt before it; if the
  answer confirms, creation requests follow, the first for the first missing pair, and if
  it does not, the run sends no creation request at all and exits with 1. When a project
  is named, the run shows no prompt and sends creation requests, the first for the first
  missing pair.
\<close>

theorem install_confirmation_gate:
  assumes key: "dd_api_key c = Some key"
    and val: "accepted 200 (validate_response r)"
    and listing: "list_projects r depth None = (trp, Inr listed)"
    and query: "subscriptionsquery_response r = Response 200 hooks"
    and missing: "fst (scan_projects (existing_hooks_by_project_type hooks)
                         (scope_projects c listed)) \<noteq> []"
  shows "\<exists>tr out. install_hooks c r depth yesno = (tr, out) \<and>
     (if project c = None
      then (\<exists>before n after.
              tr = before @ Input (ConfirmInstall n (length listed)) # after
              \<and> creations before = [] \<and> prompts before = [] \<and> prompts after = [])
           \<and> (if confirmed yesno
               then creations tr \<noteq> []
                    \<and> hd (creations tr) =
                        subscription_payload c key
                          (fst (hd (fst (scan_projects (existing_hooks_by_project_type hooks)
                                           (scope_projects c listed)))))
                          (snd (hd (fst (scan_projects (existing_hooks_by_project_type hooks)
                                           (scope_projects c listed)))))
               else creations tr = [] \<and> out = Exited 1)
      else prompts tr = [] \<and> creations tr \<noteq> []
           \<and> hd (creations tr) =
               subscription_payload c key
                 (fst (hd (fst (scan_projects (existing_hooks_by_project_type hooks)
                                  (scope_projects c listed)))))
                 (snd (hd (fst (scan_projects (existing_hooks_by_project_type hooks)
                                  (scope_projects c listed))))))"
  (is "\<exists>tr out. _ \<and> ?gate tr out")
proof -
  let ?trl = "fst (install_listed c r yesno listed)"
  let ?out = "snd (install_listed c r yesno listed)"
  let ?pre = "Http DD_Validate # trp"
  have run: "install_hooks c r depth yesno = (?pre @ ?trl, ?out)"
    using install_hooks_listed [OF val listing] by simp
  have quiet: "creations ?pre = []" "prompts ?pre = []"
    using list_projects_silent [of r depth None] listing by simp_all
  have all: "project c = None \<Longrightarrow> scope_projects c listed = listed"
    by (simp add: scope_projects_def)
  have "?gate (?pre @ ?trl) ?out"
    using key
  proof (cases rule: install_listed_cases [where listed = listed and r = r and yesno = yesno])
    case no_scope
    with missing show ?thesis by (simp add: scan_projects_def)
  next
    case (query_failed m s)
    with query show ?thesis by simp
  next
    case (nothing_missing hooks')
    with query missing show ?thesis by simp
  next
    case (declined hooks' toProcess n)
    have "\<exists>before n after.
              ?pre @ ?trl = before @ Input (ConfirmInstall n (length listed)) # after
              \<and> creations before = [] \<and> prompts before = [] \<and> prompts after = []"
      using declined all quiet
      by (intro exI [of _ "?pre @ [Http (AZ_QuerySubscriptions (webhook_url c))]"]
                exI [of _ n] exI [of _ "[Print Exiting]"]) simp
    with declined quiet show ?thesis by simp
  next
    case (configure_failed hooks' toProcess n k m s)
    with query have tp: "fst (scan_projects (existing_hooks_by_project_type hooks)
                         (scope_projects c listed)) = toProcess" by simp
    note hd = hd_creations_take [OF \<open>toProcess \<noteq> []\<close> \<open>0 < k\<close>, of c key]
    show ?thesis
    proof (cases "project c = None")
      case True
      have "\<exists>before n after.
              ?pre @ ?trl = before @ Input (ConfirmInstall n (length listed)) # after
              \<and> creations before = [] \<and> prompts before = [] \<and> prompts after = []"
        using configure_failed True all quiet
        by (intro exI [of _ "?pre @ [Http (AZ_QuerySubscriptions (webhook_url c))]"]
                  exI [of _ n] exI [of _ "map (create_event c key) (take k toProcess)"]) simp
      with configure_failed True quiet hd tp show ?thesis by simp
    next
      case False
      with configure_failed quiet hd tp show ?thesis by auto
    qed
  next
    case (configured hooks' toProcess n)
    with query have tp: "fst (scan_projects (existing_hooks_by_project_type hooks)
                         (scope_projects c listed)) = toProcess" by simp
    from \<open>toProcess \<noteq> []\<close> have pos: "0 < length toProcess" by simp
    note hd = hd_creations_take [OF \<open>toProcess \<noteq> []\<close> pos, of c key]
    show ?thesis
    proof (cases "project c = None")
      case True
      have "\<exists>before n after.
              ?pre @ ?trl = before @ Input (ConfirmInstall n (length listed)) # after
              \<and> creations before = [] \<and> prompts before = [] \<and> prompts after = []"
        using configured True all quiet
        by (intro exI [of _ "?pre @ [Http (AZ_QuerySubscriptions (webhook_url c))]"]
                  exI [of _ n]
                  exI [of _ "map (create_event c key) toProcess @
                             [Print (ConfiguredAll (length toProcess) n)]"]) simp
      with configured True quiet hd tp show ?thesis by simp
    next
      case False
      with configured quiet hd tp show ?thesis by auto
    qed
  qed
  with run show ?thesis by blast
qed


lemma scan_remote_ok:
  "fst (scan_projects (existing_hooks_by_project_type [push_hook]) [alpha1, alpha2]) =
     map (Pair alpha1) (filter (\<lambda>e. e \<noteq> ''git.push'') EVENT_TYPES)
     @ map (Pair alpha2) EVENT_TYPES"
  by (simp add: scan_projects_eq missing_types_def existing_lookup hook_key_def
      push_hook_def alpha1_def alpha2_def)

theorem install_confirmation_gate_witness:
  "project client_all = None \<and> \<not> confirmed ''no''
   \<and> (\<exists>tr. install_hooks client_all remote_ok 1000 ''no'' = (tr, Exited 1)
             \<and> creations tr = [])
   \<and> project client_alpha = Some ''Alpha''
   \<and> (\<exists>tr out. install_hooks client_alpha remote_ok 1000 ''no'' = (tr, out)
             \<and> prompts tr = [] \<and> creations tr \<noteq> [])"
proof -
  have val: "accepted 200 (validate_response remote_ok)"
    by (simp add: remote_ok_def)
  have query: "subscriptionsquery_response remote_ok = Response 200 [push_hook]"
    by (simp add: remote_ok_def)
  have no: "\<not> confirmed ''no''"
    by (simp add: confirmed_def lower_def lower_char_def)
  have key: "dd_api_key client_all = Some ''key''" "dd_api_key client_alpha = Some ''key''"
    by (simp_all add: client_all_def client_alpha_def)
  have scope: "scope_projects client_all [alpha1, alpha2] = [alpha1, alpha2]"
    "scope_projects client_alpha [alpha1, alpha2] = [alpha1, alpha2]"
    by (simp_all add: scope_projects_def client_all_def client_alpha_def alpha1_def alpha2_def)
  have missing: "fst (scan_projects (existing_hooks_by_project_type [push_hook])
                        [alpha1, alpha2]) \<noteq> []"
    by (simp add: scan_remote_ok EVENT_TYPES_def)
  have all: "project client_all = None" and named: "project client_alpha = Some ''Alpha''"
    by (simp_all add: client_all_def client_alpha_def)
  from install_confirmation_gate [OF key(1) val list_projects_remote_ok query, of "''no''"]
    missing scope all no
  have "\<exists>tr. install_hooks client_all remote_ok 1000 ''no'' = (tr, Exited 1)
             \<and> creations tr = []"
    by auto
  moreover
  from install_confirmation_gate [OF key(2) val list_projects_remote_ok query, of "''no''"]
    missing scope named
  have "\<exists>tr out. install_hooks client_alpha remote_ok 1000 ''no'' = (tr, out)
             \<and> prompts tr = [] \<and> creations tr \<noteq> []"
    by auto
  ultimately show ?thesis using all named no by simp
qed

section \<open>The scope of a named project\<close>

lemma payloads_of_scan:
  "map (\<lambda>pe. subscription_payload c key (fst pe) (snd pe))
       (fst (scan_projects (existing_hooks_by_project_type hooks) ps)) =
   concat (map (\<lambda>p. map (subscription_payload c key p)
                       (filter (\<lambda>e. (project_id p, e) \<notin> hook_key ` set hooks) EVENT_TYPES))
               ps)"
  by (simp add: scan_projects_eq missing_types_def existing_lookup map_concat comp_def)

lemma accepted_creations_no_error:
  "\<forall>pl. accepted 200 (create_response r pl) \<Longrightarrow>
     \<not> remote_error r (map (create_event c key) tp)"
  by (induction tp) (simp_all add: create_event_def)

lemma install_named_run:
  assumes key: "dd_api_key c = Some key"
    and val: "accepted 200 (validate_response r)"
    and listing: "list_projects r depth None = (trp, Inr listed)"
    and named: "project c = Some name"
    and query: "subscriptionsquery_response r = Response 200 hooks"
    and accept: "\<forall>pl. accepted 200 (create_response r pl)"
  shows "\<exists>tr. install_hooks c r depth yesno = (tr, Returned) \<and> prompts tr = []
           \<and> creations tr =
               concat (map (\<lambda>p. map (subscription_payload c key p)
                              (filter (\<lambda>e. (project_id p, e) \<notin> hook_key ` set hooks)
                                 EVENT_TYPES))
                        (filter (\<lambda>p. project_name p = name) listed))"
proof -
  let ?trl = "fst (install_listed c r yesno listed)"
  let ?out = "snd (install_listed c r yesno listed)"
  let ?pre = "Http DD_Validate # trp"
  let ?wanted = "concat (map (\<lambda>p. map (subscription_payload c key p)
                              (filter (\<lambda>e. (project_id p, e) \<notin> hook_key ` set hooks)
                                 EVENT_TYPES))
                        (filter (\<lambda>p. project_name p = name) listed))"
  have scope: "scope_projects c listed = filter (\<lambda>p. project_name p = name) listed"
    using named by (simp add: scope_projects_def)
  have run: "install_hooks c r depth yesno = (?pre @ ?trl, ?out)"
    using install_hooks_listed [OF val listing] by simp
  have quiet: "creations ?pre = []" "prompts ?pre = []"
    using list_projects_silent [of r depth None] listing by simp_all
  have wanted: "map (\<lambda>pe. subscription_payload c key (fst pe) (snd pe))
       (fst (scan_projects (existing_hooks_by_project_type hooks) (scope_projects c listed)))
       = ?wanted"
    unfolding scope by (rule payloads_of_scan)
  have "?out = Returned \<and> prompts ?trl = [] \<and> creations ?trl = ?wanted"
    using key
  proof (cases rule: install_listed_cases [where listed = listed and r = r and yesno = yesno])
    case no_scope
    with scope show ?thesis by simp
  next
    case (query_failed m s)
    with query show ?thesis by simp
  next
    case (nothing_missing hooks')
    with query wanted show ?thesis by simp
  next
    case (declined hooks' toProcess n)
    with named show ?thesis by simp
  next
    case (configure_failed hooks' toProcess n k m s)
    with accepted_creations_no_error [OF accept] show ?thesis by simp
  next
    case (configured hooks' toProcess n)
    with query wanted named show ?thesis by simp
  qed
  with run quiet show ?thesis by simp
qed

text \<open>
  C10. When a project is named, the scope of the install is every listed project whose
  name equals the argument. With the validation, the listing, the query and every
  creation accepted, the run shows no prompt and returns after sending, for each project
  of that name in listing order, a creation request for each event type the project has
  no hook for. Two projects can carry the name: the listing of \<open>alpha1\<close> and \<open>alpha2\<close>
  gives a scope of two projects.
\<close>

theorem install_named_scope_keeps_every_project_of_that_name:
  assumes key: "dd_api_key c = Some key"
    and val: "accepted 200 (validate_response r)"
    and listing: "list_projects r depth None = (trp, Inr listed)"
    and named: "project c = Some name"
    and query: "subscriptionsquery_response r = Response 200 hooks"
    and accept: "\<forall>pl. accepted 200 (create_response r pl)"
  shows "scope_projects c listed = filter (\<lambda>p. project_name p = name) listed
     \<and> (\<exists>tr. install_hooks c r depth yesno = (tr, Returned) \<and> prompts tr = []
           \<and> creations tr =
               concat (map (\<lambda>p. map (subscription_payload c key p)
                              (filter (\<lambda>e. (project_id p, e) \<notin> hook_key ` set hooks)
                                 EVENT_TYPES))
                        (filter (\<lambda>p. project_name p = name) listed)))
     \<and> length (scope_projects client_alpha [alpha1, alpha2]) = 2"
proof -
  have scope: "scope_projects c listed = filter (\<lambda>p. project_name p = name) listed"
    using named by (simp add: scope_projects_def)
  have two: "length (scope_projects client_alpha [alpha1, alpha2]) = 2"
    by (simp add: scope_projects_def client_all_def client_alpha_def alpha1_def alpha2_def)
  from install_named_run [OF key val listing named query accept, of yesno] scope two
  show ?thesis by blast
qed

theorem install_named_scope_keeps_every_project_of_that_name_witness:
  "project client_alpha = Some ''Alpha''
   \<and> scope_projects client_alpha [alpha1, alpha2] = [alpha1, alpha2]
   \<and> (\<exists>tr. install_hooks client_alpha remote_ok 1000 ''no'' = (tr, Returned)
         \<and> prompts tr = []
         \<and> map publisherInputs_projectId (creations tr) =
             replicate 8 ''p1'' @ replicate 9 ''p2'')"
proof -
  have val: "accepted 200 (validate_response remote_ok)"
    by (simp add: remote_ok_def)
  have query: "subscriptionsquery_response remote_ok = Response 200 [push_hook]"
    by (simp add: remote_ok_def)
  have accept: "\<forall>pl. accepted 200 (create_response remote_ok pl)"
    by (simp add: remote_ok_def)
  have key: "dd_api_key client_alpha = Some ''key''"
    by (simp add: client_all_def client_alpha_def)
  have named: "project client_alpha = Some ''Alpha''"
    by (simp add: client_alpha_def)
  have scope: "scope_projects client_alpha [alpha1, alpha2] = [alpha1, alpha2]"
    by (simp add: scope_projects_def client_all_def client_alpha_def alpha1_def alpha2_def)
  from install_named_scope_keeps_every_project_of_that_name
         [OF key val list_projects_remote_ok named query accept, of "''no''"]
  obtain tr where tr: "install_hooks client_alpha remote_ok 1000 ''no'' = (tr, Returned)"
    "prompts tr = []"
    "creations tr =
       concat (map (\<lambda>p. map (subscription_payload client_alpha ''key'' p)
                      (filter (\<lambda>e. (project_id p, e) \<notin> hook_key ` set [push_hook])
                         EVENT_TYPES))
                (filter (\<lambda>p. project_name p = ''Alpha'') [alpha1, alpha2]))"
    by blast
  have "map publisherInputs_projectId (creations tr) = replicate 8 ''p1'' @ replicate 9 ''p2''"
    unfolding tr(3)
    by (simp add: subscription_payload_def EVENT_TYPES_def hook_key_def push_hook_def
        alpha1_def alpha2_def numeral_eq_Suc)
  with tr named scope show ?thesis by blast
qed

section \<open>Installing twice\<close>

lemma scan_after_creation:
  assumes "map hook_key created =
           map (\<lambda>pe. (project_id (fst pe), snd pe))
               (fst (scan_projects (existing_hooks_by_project_type hooks) ps))"
  shows "fst (scan_projects (existing_hooks_by_project_type (hooks @ created)) ps) = []"
proof -
  from assms have "set (map hook_key created) =
      set (map (\<lambda>pe. (project_id (fst pe), snd pe))
               (fst (scan_projects (existing_hooks_by_project_type hooks) ps)))"
    by simp
  then have keys: "hook_key ` set created =
      {(project_id p, e) | p e. p \<in> set ps \<and> e \<in> set EVENT_TYPES
                                \<and> (project_id p, e) \<notin> hook_key ` set hooks}"
    by (auto simp: scan_projects_eq missing_types_def existing_lookup image_iff)
  have "\<forall>p\<in>set ps. \<forall>e\<in>set EVENT_TYPES.
          (project_id p, e) \<in> hook_key ` set hooks \<union> hook_key ` set created"
    unfolding keys by blast
  then show ?thesis
    by (auto simp: scan_projects_eq missing_types_def existing_lookup filter_empty_conv image_Un)
qed

lemma install_listed_no_scope:
  "scope_projects c listed = [] \<Longrightarrow>
     install_listed c r yesno listed =
       ([Print (case project c of None \<Rightarrow> NoProjectsFound
                | Some name \<Rightarrow> ProjectNotFound name)], Returned)"
  by (simp add: install_listed_def)

lemma install_listed_nothing_missing:
  "scope_projects c listed \<noteq> [] \<Longrightarrow> subscriptionsquery_response r = Response 200 hooks \<Longrightarrow>
   fst (scan_projects (existing_hooks_by_project_type hooks) (scope_projects c listed)) = [] \<Longrightarrow>
     install_listed c r yesno listed =
       ([Http (AZ_QuerySubscriptions (webhook_url c)),
         Print (case project c of
                  None \<Rightarrow> AllAlreadyConfigured (length (scope_projects c listed))
                | Some name \<Rightarrow> ProjectAlreadyConfigured name)], Returned)"
  by (cases "scan_projects (existing_hooks_by_project_type hooks) (scope_projects c listed)")
     (simp add: install_listed_def get_existing_hooks_def)

text \<open>
  C3. Take a first install run, with a key set, that lists the projects, finds the hooks
  \<open>hooks\<close> and returns, and a remote that differs from the first one only in that its
  hooks are \<open>hooks\<close> followed by one hook for each creation request of the first run, with
  that request's project and event type. Over this remote the scan finds no pair
  missing, and a second run returns without a single creation request; its last message
  says that the hooks are already configured (or, when no project is in scope, that
  none was found, as the first run said).
\<close>

theorem second_install_creates_nothing:
  assumes key: "dd_api_key c = Some key"
    and listing: "list_projects r1 depth None = (trp, Inr listed)"
    and run1: "install_hooks c r1 depth yesno1 = (tr1, Returned)"
    and query1: "subscriptionsquery_response r1 = Response 200 hooks"
    and r2: "r2 = r1\<lparr>subscriptionsquery_response := Response 200 (hooks @ created)\<rparr>"
    and created: "map hook_key created =
                    map (\<lambda>pl. (publisherInputs_projectId pl, eventType pl)) (creations tr1)"
  shows "fst (scan_projects (existing_hooks_by_project_type (hooks @ created))
                (scope_projects c listed)) = []
     \<and> (\<exists>tr2. install_hooks c r2 depth yesno2 = (tr2, Returned) \<and> creations tr2 = []
           \<and> last tr2 =
               Print (if scope_projects c listed = []
                      then (case project c of None \<Rightarrow> NoProjectsFound
                            | Some name \<Rightarrow> ProjectNotFound name)
                      else (case project c of
                              None \<Rightarrow> AllAlreadyConfigured (length (scope_projects c listed))
                            | Some name \<Rightarrow> ProjectAlreadyConfigured name)))"
proof -
  let ?scope = "scope_projects c listed"
  let ?tp = "fst (scan_projects (existing_hooks_by_project_type hooks) ?scope)"
  from run1 listing have val: "accepted 200 (validate_response r1)"
    and tr1: "tr1 = Http DD_Validate # trp @ fst (install_listed c r1 yesno1 listed)"
    and out1: "snd (install_listed c r1 yesno1 listed) = Returned"
    by (cases rule: install_hooks_cases; simp)+
  have quiet: "creations trp = []"
    using list_projects_silent [of r1 depth None] listing by simp
  have done1: "?scope \<noteq> [] \<Longrightarrow>
    creations tr1 = map (\<lambda>pe. subscription_payload c key (fst pe) (snd pe)) ?tp"
    using key
  proof (cases rule: install_listed_cases [where listed = listed and r = r1 and yesno = yesno1])
    case no_scope
    assume "?scope \<noteq> []"
    with no_scope show ?thesis by simp
  next
    case (query_failed m s)
    with out1 show ?thesis by simp
  next
    case (nothing_missing hooks')
    with query1 tr1 quiet show ?thesis by simp
  next
    case (declined hooks' toProcess n)
    with out1 show ?thesis by simp
  next
    case (configure_failed hooks' toProcess n k m s)
    with out1 show ?thesis by simp
  next
    case (configured hooks' toProcess n)
    with query1 tr1 quiet show ?thesis by simp
  qed
  have scan2: "fst (scan_projects (existing_hooks_by_project_type (hooks @ created)) ?scope) = []"
  proof (cases "?scope = []")
    case True
    then show ?thesis by (simp add: scan_projects_def)
  next
    case False
    from done1 [OF False] created
    have "map hook_key created = map (\<lambda>pe. (project_id (fst pe), snd pe)) ?tp"
      by (simp add: subscription_payload_def comp_def)
    then show ?thesis by (rule scan_after_creation)
  qed
  have val2: "accepted 200 (validate_response r2)"
    using val r2 by simp
  have "list_projects r2 depth None = list_projects r1 depth None"
    using r2 by (intro list_projects_cong) simp
  with listing have listing2: "list_projects r2 depth None = (trp, Inr listed)" by simp
  have query2: "subscriptionsquery_response r2 = Response 200 (hooks @ created)"
    using r2 by simp
  let ?trl = "fst (install_listed c r2 yesno2 listed)"
  have run2: "install_hooks c r2 depth yesno2 =
      (Http DD_Validate # trp @ ?trl, snd (install_listed c r2 yesno2 listed))"
    by (rule install_hooks_listed [OF val2 listing2])
  have "snd (install_listed c r2 yesno2 listed) = Returned
      \<and> creations (Http DD_Validate # trp @ ?trl) = []
      \<and> last (Http DD_Validate # trp @ ?trl) =
               Print (if ?scope = []
                      then (case project c of None \<Rightarrow> NoProjectsFound
                            | Some name \<Rightarrow> ProjectNotFound name)
                      else (case project c of
                              None \<Rightarrow> AllAlreadyConfigured (length ?scope)
                            | Some name \<Rightarrow> ProjectAlreadyConfigured name))"
  proof (cases "?scope = []")
    case True
    from install_listed_no_scope [OF True, of r2 yesno2] True quiet show ?thesis by simp
  next
    case False
    from install_listed_nothing_missing [OF False query2 scan2, of yesno2] False quiet
    show ?thesis by simp
  qed
  with run2 scan2 show ?thesis
    by (intro conjI exI [of _ "Http DD_Validate # trp @ ?trl"]) simp_all
qed

theorem second_install_creates_nothing_witness:
  "\<exists>tr1. install_hooks client_alpha remote_ok 1000 ''no'' = (tr1, Returned)
      \<and> length (creations tr1) = 17
      \<and> (\<exists>tr2. install_hooks client_alpha
                  (remote_ok\<lparr>subscriptionsquery_response :=
                               Response 200 ([push_hook] @ map created_hook (creations tr1))\<rparr>)
                  1000 ''no'' = (tr2, Returned)
             \<and> creations tr2 = []
             \<and> last tr2 = Print (ProjectAlreadyConfigured ''Alpha''))"
proof -
  have val: "accepted 200 (validate_response remote_ok)"
    by (simp add: remote_ok_def)
  have query: "subscriptionsquery_response remote_ok = Response 200 [push_hook]"
    by (simp add: remote_ok_def)
  have accept: "\<forall>pl. accepted 200 (create_response remote_ok pl)"
    by (simp add: remote_ok_def)
  have key: "dd_api_key client_alpha = Some ''key''"
    by (simp add: client_all_def client_alpha_def)
  have named: "project client_alpha = Some ''Alpha''"
    by (simp add: client_alpha_def)
  have scope: "scope_projects client_alpha [alpha1, alpha2] = [alpha1, alpha2]"
    by (simp add: scope_projects_def client_all_def client_alpha_def alpha1_def alpha2_def)
  from install_named_run [OF key val list_projects_remote_ok named query accept, of "''no''"]
  obtain tr1 where run1: "install_hooks client_alpha remote_ok 1000 ''no'' = (tr1, Returned)"
    and made: "creations tr1 =
       concat (map (\<lambda>p. map (subscription_payload client_alpha ''key'' p)
                      (filter (\<lambda>e. (project_id p, e) \<notin> hook_key ` set [push_hook])
                         EVENT_TYPES))
                (filter (\<lambda>p. project_name p = ''Alpha'') [alpha1, alpha2]))"
    by blast
  have count: "length (creations tr1) = 17"
    unfolding made
    by (simp add: EVENT_TYPES_def hook_key_def push_hook_def alpha1_def alpha2_def)
  have created: "map hook_key (map created_hook (creations tr1)) =
                   map (\<lambda>pl. (publisherInputs_projectId pl, eventType pl)) (creations tr1)"
    by (simp add: hook_key_def created_hook_def comp_def)
  from second_install_creates_nothing
         [OF key list_projects_remote_ok run1 query refl created, of "''no''"] scope named
  have "\<exists>tr2. install_hooks client_alpha
                  (remote_ok\<lparr>subscriptionsquery_response :=
                               Response 200 ([push_hook] @ map created_hook (creations tr1))\<rparr>)
                  1000 ''no'' = (tr2, Returned)
             \<and> creations tr2 = []
             \<and> last tr2 = Print (ProjectAlreadyConfigured ''Alpha'')"
    by simp
  with run1 count show ?thesis by blast
qed

section \<open>The exit status\<close>







end
